theory Spec2Isabelle
  imports Complex_Main "HOL-Library.Sublist"
begin

section \<open>JavaScript numbers\<close>

text \<open>
  A value of the TypeScript type \<open>number\<close>: a finite value, \<open>NaN\<close>, or one of the two
  infinities. A finite double is represented by the rational it denotes and arithmetic
  on finite values is exact: rounding to 53 bits, overflow and the sign of zero are not
  modelled. The special values follow IEEE 754 as ECMAScript applies it.
\<close>

datatype number = Fin rat | NaN | PosInf | NegInf

text \<open>\<open>ToBoolean\<close> on a number: \<open>0\<close> and \<open>NaN\<close> are falsy.\<close>

fun truthy :: "number \<Rightarrow> bool" where
  "truthy (Fin x) = (x \<noteq> 0)"
| "truthy NaN = False"
| "truthy PosInf = True"
| "truthy NegInf = True"

text \<open>The operator \<open>-\<close>.\<close>

fun num_sub :: "number \<Rightarrow> number \<Rightarrow> number" where
  "num_sub (Fin a) (Fin b) = Fin (a - b)"
| "num_sub (Fin a) PosInf = NegInf"
| "num_sub (Fin a) NegInf = PosInf"
| "num_sub PosInf (Fin b) = PosInf"
| "num_sub PosInf NegInf = PosInf"
| "num_sub NegInf (Fin b) = NegInf"
| "num_sub NegInf PosInf = NegInf"
| "num_sub _ _ = NaN"

text \<open>The operator \<open>/\<close>. It never throws: a zero divisor gives an infinity or \<open>NaN\<close>.\<close>

fun num_div :: "number \<Rightarrow> number \<Rightarrow> number" where
  "num_div (Fin a) (Fin b) =
     (if b = 0 then (if a = 0 then NaN else if 0 < a then PosInf else NegInf)
      else Fin (a / b))"
| "num_div (Fin a) PosInf = Fin 0"
| "num_div (Fin a) NegInf = Fin 0"
| "num_div PosInf (Fin b) = (if 0 \<le> b then PosInf else NegInf)"
| "num_div NegInf (Fin b) = (if 0 \<le> b then NegInf else PosInf)"
| "num_div _ _ = NaN"

text \<open>The operator \<open>*\<close>.\<close>

fun num_mul :: "number \<Rightarrow> number \<Rightarrow> number" where
  "num_mul (Fin a) (Fin b) = Fin (a * b)"
| "num_mul NaN _ = NaN"
| "num_mul _ NaN = NaN"
| "num_mul PosInf (Fin b) = (if b = 0 then NaN else if 0 < b then PosInf else NegInf)"
| "num_mul NegInf (Fin b) = (if b = 0 then NaN else if 0 < b then NegInf else PosInf)"
| "num_mul (Fin a) PosInf = (if a = 0 then NaN else if 0 < a then PosInf else NegInf)"
| "num_mul (Fin a) NegInf = (if a = 0 then NaN else if 0 < a then NegInf else PosInf)"
| "num_mul PosInf PosInf = PosInf"
| "num_mul PosInf NegInf = NegInf"
| "num_mul NegInf PosInf = NegInf"
| "num_mul NegInf NegInf = PosInf"

text \<open>The operators \<open><\<close> and \<open>>\<close>: every comparison with \<open>NaN\<close> is false.\<close>

fun num_lt :: "number \<Rightarrow> number \<Rightarrow> bool" where
  "num_lt (Fin a) (Fin b) = (a < b)"
| "num_lt (Fin a) PosInf = True"
| "num_lt NegInf (Fin b) = True"
| "num_lt NegInf PosInf = True"
| "num_lt _ _ = False"

definition num_gt :: "number \<Rightarrow> number \<Rightarrow> bool" where
  "num_gt x y = num_lt y x"

text \<open>\<open>Math.round\<close>: the nearest integer, a tie going up.\<close>

fun Math_round :: "number \<Rightarrow> number" where
  "Math_round (Fin x) = Fin (of_int \<lfloor>x + 1 / 2\<rfloor>)"
| "Math_round n = n"

section \<open>Numbers to strings\<close>

definition digit_char :: "nat \<Rightarrow> char" where
  "digit_char d = char_of (48 + d)"

fun show_nat :: "nat \<Rightarrow> string" where
  "show_nat n = (if n < 10 then [digit_char n] else show_nat (n div 10) @ [digit_char (n mod 10)])"

declare show_nat.simps [simp del]

text \<open>
  \<open>Number::toString\<close>, as a template literal applies it. An integer below \<open>10^21\<close> in
  magnitude is printed in decimal. For every other finite value ECMAScript prints the
  shortest digit string that reads back as the same double, which depends on the binary
  representation; that rendering is the parameter \<open>fmt\<close>.
\<close>

fun Number_toString :: "(rat \<Rightarrow> string) \<Rightarrow> number \<Rightarrow> string" where
  "Number_toString fmt NaN = ''NaN''"
| "Number_toString fmt PosInf = ''Infinity''"
| "Number_toString fmt NegInf = ''-Infinity''"
| "Number_toString fmt (Fin x) =
     (if of_int \<lfloor>x\<rfloor> = x \<and> \<bar>x\<bar> < 10 ^ 21
      then (if x < 0 then ''-'' else []) @ show_nat (nat \<lfloor>\<bar>x\<bar>\<rfloor>)
      else fmt x)"

datatype error = TypeError | RangeError

text \<open>
  \<open>Number.prototype.toFixed\<close> with \<open>f\<close> fraction digits: a \<open>RangeError\<close> when \<open>f\<close> is
  above 100; otherwise the integer \<open>n\<close> nearest to \<open>x * 10^f\<close> (the larger on a tie),
  printed with a decimal point before its last \<open>f\<close> digits.
\<close>

definition toFixed_digits :: "nat \<Rightarrow> rat \<Rightarrow> string" where
  "toFixed_digits f x =
     (let n = nat \<lfloor>x * 10 ^ f + 1 / 2\<rfloor>;
          m = show_nat n;
          m' = (if length m \<le> f then replicate (f + 1 - length m) (CHR ''0'') @ m else m);
          k = length m'
      in if f = 0 then m else take (k - f) m' @ ''.'' @ drop (k - f) m')"

fun toFixed :: "(rat \<Rightarrow> string) \<Rightarrow> nat \<Rightarrow> number \<Rightarrow> error + string" where
  "toFixed fmt f (Fin x) =
     (if 100 < f then Inl RangeError
      else Inr ((if x < 0 then ''-'' else []) @
                (if 10 ^ 21 \<le> \<bar>x\<bar> then fmt \<bar>x\<bar> else toFixed_digits f \<bar>x\<bar>)))"
| "toFixed fmt f n = (if 100 < f then Inl RangeError else Inr (Number_toString fmt n))"

section \<open>Data model\<close>

text \<open>A \<open>Date\<close> object holds a time value in milliseconds, or none when it is invalid.\<close>

datatype Date = ValidDate int | InvalidDate

text \<open>\<open>Date.prototype.getTime\<close>: the time value, \<open>NaN\<close> for an invalid date.\<close>

fun getTime :: "Date \<Rightarrow> number" where
  "getTime (ValidDate t) = Fin (of_int t)"
| "getTime InvalidDate = NaN"

text \<open>The interface \<open>IPatient\<close> (models/Patient.ts).\<close>

record IPatient =
  patientId :: string
  firstName :: string
  lastName :: string
  dateOfBirth :: Date
  dryWeight :: number
  unit :: string

text \<open>The evaluator's second parameter, of type \<open>{ dryWeight: number }\<close>.\<close>

record Baseline =
  dryWeight :: number

text \<open>The interfaces \<open>IVitals\<close> and \<open>ISession\<close> (models/Session.ts).\<close>

record IVitals =
  systolicBP :: number
  diastolicBP :: number
  heartRate :: "number option"
  temperature :: "number option"

record Vitals =
  pre :: "IVitals option"
  post :: "IVitals option"

datatype Status = not_started | in_progress | completed

text \<open>The request body of the update route, of type \<open>UpdateSessionRequest\<close>.\<close>

record UpdateSessionRequest =
  nurseNotes :: "string option"
  endTime :: "string option"
  postWeight :: "number option"
  vitals :: "Vitals option"
  status :: "Status option"

record ISession =
  patientId :: string
  scheduledDate :: Date
  startTime :: Date
  endTime :: "Date option"
  preWeight :: number
  postWeight :: "number option"
  vitals :: Vitals
  machineId :: string
  nurseNotes :: "string option"
  status :: Status
  anomalies :: "string list"

text \<open>
  The response of the update route: the session document and the flag computed from it.
\<close>

record PatchResponse =
  saved :: ISession
  hasAnomalies :: bool

text \<open>The interface \<open>AnomalyResult\<close>.\<close>

record AnomalyResult =
  hasAnomalies :: bool
  anomalies :: "string list"

text \<open>The constant object \<open>ANOMALY_THRESHOLDS\<close> (config/constants).\<close>

record Thresholds =
  MAX_WEIGHT_GAIN_PERCENT :: number
  HIGH_SYSTOLIC_BP :: number
  MIN_SESSION_DURATION :: number
  MAX_SESSION_DURATION :: number
  TARGET_SESSION_DURATION :: number

definition ANOMALY_THRESHOLDS :: Thresholds where
  "ANOMALY_THRESHOLDS =
     \<lparr>MAX_WEIGHT_GAIN_PERCENT = Fin (5 / 100),
      HIGH_SYSTOLIC_BP = Fin 140,
      MIN_SESSION_DURATION = Fin 150,
      MAX_SESSION_DURATION = Fin 300,
      TARGET_SESSION_DURATION = Fin 240\<rparr>"

section \<open>The evaluator \<open>detectAnomalies\<close>\<close>

text \<open>
  The body runs on a frame: the two argument objects and the local array \<open>anomalies\<close>.
  Each statement maps a frame to the next one, or to the exception it throws.
\<close>

record frame =
  session :: ISession
  patient :: Baseline
  anomalies :: "string list"

definition bind :: "error + 'a \<Rightarrow> ('a \<Rightarrow> error + 'b) \<Rightarrow> error + 'b" where
  "bind m k = (case m of Inl e \<Rightarrow> Inl e | Inr x \<Rightarrow> k x)"

text \<open>Reading a property of a value that may be \<open>undefined\<close> throws a \<open>TypeError\<close>.\<close>

definition deref :: "'a option \<Rightarrow> error + 'a" where
  "deref v = (case v of None \<Rightarrow> Inl TypeError | Some x \<Rightarrow> Inr x)"

text \<open>\<open>anomalies.push(a)\<close>\<close>

definition push :: "frame \<Rightarrow> string \<Rightarrow> frame" where
  "push f a = f\<lparr>frame.anomalies := frame.anomalies f @ [a]\<rparr>"

text \<open>Lines 43 to 52: the check for excess interdialytic weight gain.\<close>

definition check_weight_gain :: "(rat \<Rightarrow> string) \<Rightarrow> frame \<Rightarrow> error + frame" where
  "check_weight_gain fmt f =
     (if truthy (preWeight (session f)) \<and> truthy (Baseline.dryWeight (patient f)) then
        let weightGain = num_sub (preWeight (session f)) (Baseline.dryWeight (patient f));
            weightGainPercent = num_div weightGain (Baseline.dryWeight (patient f))
        in if num_gt weightGainPercent (MAX_WEIGHT_GAIN_PERCENT ANOMALY_THRESHOLDS) then
             bind (toFixed fmt 2 weightGain) (\<lambda>kg.
             bind (toFixed fmt 1 (num_mul weightGainPercent (Fin 100))) (\<lambda>pct.
             Inr (push f (''Excess interdialytic weight gain: '' @ kg @ '' kg ('' @ pct @
                          ''% of dry weight)''))))
           else Inr f
      else Inr f)"

text \<open>
  Lines 55 to 61: the check for high post-dialysis systolic blood pressure. The test
  \<open>session.vitals?.post?.systolicBP\<close> is \<open>undefined\<close>, hence falsy, when \<open>post\<close> is
  absent; the two reads that follow it are not guarded by \<open>?.\<close>.
\<close>

definition check_systolic_bp :: "(rat \<Rightarrow> string) \<Rightarrow> frame \<Rightarrow> error + frame" where
  "check_systolic_bp fmt f =
     (if (case post (vitals (session f)) of None \<Rightarrow> False | Some v \<Rightarrow> truthy (systolicBP v)) then
        bind (deref (post (vitals (session f)))) (\<lambda>v.
        if num_gt (systolicBP v) (HIGH_SYSTOLIC_BP ANOMALY_THRESHOLDS) then
          bind (deref (post (vitals (session f)))) (\<lambda>w.
          Inr (push f (''High post-dialysis systolic BP: '' @ Number_toString fmt (systolicBP w) @
                       '' mmHg (threshold: '' @
                       Number_toString fmt (HIGH_SYSTOLIC_BP ANOMALY_THRESHOLDS) @ '' mmHg)'')))
        else Inr f)
      else Inr f)"

text \<open>
  Lines 64 to 76: the check for abnormal session duration. A \<open>Date\<close> object is truthy,
  so \<open>session.endTime && session.startTime\<close> tests whether \<open>endTime\<close> is present.
\<close>

definition check_duration :: "(rat \<Rightarrow> string) \<Rightarrow> frame \<Rightarrow> error + frame" where
  "check_duration fmt f =
     (if endTime (session f) \<noteq> None then
        bind (deref (endTime (session f))) (\<lambda>e.
        let durationMinutes =
              num_div (num_sub (getTime e) (getTime (startTime (session f)))) (Fin (1000 * 60))
        in if num_lt durationMinutes (MIN_SESSION_DURATION ANOMALY_THRESHOLDS) then
             Inr (push f (''Short session duration: '' @
                          Number_toString fmt (Math_round durationMinutes) @
                          '' minutes (minimum: '' @
                          Number_toString fmt (MIN_SESSION_DURATION ANOMALY_THRESHOLDS) @
                          '' minutes)''))
           else if num_gt durationMinutes (MAX_SESSION_DURATION ANOMALY_THRESHOLDS) then
             Inr (push f (''Long session duration: '' @
                          Number_toString fmt (Math_round durationMinutes) @
                          '' minutes (maximum: '' @
                          Number_toString fmt (MAX_SESSION_DURATION ANOMALY_THRESHOLDS) @
                          '' minutes)''))
           else Inr f)
      else Inr f)"

text \<open>Lines 40 to 76: the three checks in sequence on the frame.\<close>

definition detectAnomalies_body :: "(rat \<Rightarrow> string) \<Rightarrow> frame \<Rightarrow> error + frame" where
  "detectAnomalies_body fmt f =
     bind (check_weight_gain fmt f) (\<lambda>f1.
     bind (check_systolic_bp fmt f1) (\<lambda>f2.
     check_duration fmt f2))"

text \<open>The whole function: the array starts empty, and lines 78 to 81 build the result.\<close>

definition detectAnomalies :: "(rat \<Rightarrow> string) \<Rightarrow> ISession \<Rightarrow> Baseline \<Rightarrow> error + AnomalyResult" where
  "detectAnomalies fmt s p =
     bind (detectAnomalies_body fmt \<lparr>session = s, patient = p, anomalies = []\<rparr>) (\<lambda>f.
     Inr \<lparr>hasAnomalies = (0 < length (frame.anomalies f)),
          AnomalyResult.anomalies = frame.anomalies f\<rparr>)"

section \<open>The session-update handler\<close>






section \<open>Vocabulary of the properties\<close>

text \<open>
  An anomaly is recognised by the label its description starts with, the labels the
  unit tests of the evaluator look for.
\<close>

definition is_weight_gain_anomaly :: "string \<Rightarrow> bool" where
  "is_weight_gain_anomaly a = prefix ''Excess interdialytic weight gain'' a"

definition is_bp_anomaly :: "string \<Rightarrow> bool" where
  "is_bp_anomaly a = prefix ''High post-dialysis systolic BP'' a"

definition is_short_anomaly :: "string \<Rightarrow> bool" where
  "is_short_anomaly a = prefix ''Short session duration'' a"

definition is_long_anomaly :: "string \<Rightarrow> bool" where
  "is_long_anomaly a = prefix ''Long session duration'' a"

definition is_duration_anomaly :: "string \<Rightarrow> bool" where
  "is_duration_anomaly a = (is_short_anomaly a \<or> is_long_anomaly a)"

text \<open>The operator \<open><=\<close>, used to state that a weight does not exceed another.\<close>

fun num_le :: "number \<Rightarrow> number \<Rightarrow> bool" where
  "num_le (Fin a) (Fin b) = (a \<le> b)"
| "num_le (Fin a) PosInf = True"
| "num_le NegInf (Fin b) = True"
| "num_le NegInf PosInf = True"
| "num_le PosInf PosInf = True"
| "num_le NegInf NegInf = True"
| "num_le _ _ = False"

text \<open>The string a call of \<open>toFixed\<close> returns when it does not throw.\<close>

definition fixed :: "(rat \<Rightarrow> string) \<Rightarrow> nat \<Rightarrow> number \<Rightarrow> string" where
  "fixed fmt f x = (case toFixed fmt f x of Inl e \<Rightarrow> [] | Inr a \<Rightarrow> a)"

text \<open>What each of the three checks appends, as a function of the two arguments.\<close>

definition weightGainPercent :: "ISession \<Rightarrow> Baseline \<Rightarrow> number" where
  "weightGainPercent s p = num_div (num_sub (preWeight s) (dryWeight p)) (dryWeight p)"

definition weight_part :: "(rat \<Rightarrow> string) \<Rightarrow> ISession \<Rightarrow> Baseline \<Rightarrow> string list" where
  "weight_part fmt s p =
     (if truthy (preWeight s) \<and> truthy (dryWeight p) \<and> num_gt (weightGainPercent s p) (Fin (5 / 100))
      then [''Excess interdialytic weight gain: '' @ fixed fmt 2 (num_sub (preWeight s) (dryWeight p)) @
            '' kg ('' @ fixed fmt 1 (num_mul (weightGainPercent s p) (Fin 100)) @ ''% of dry weight)'']
      else [])"

definition bp_part :: "(rat \<Rightarrow> string) \<Rightarrow> ISession \<Rightarrow> string list" where
  "bp_part fmt s =
     (case post (vitals s) of
        None \<Rightarrow> []
      | Some v \<Rightarrow>
          if truthy (systolicBP v) \<and> num_gt (systolicBP v) (Fin 140)
          then [''High post-dialysis systolic BP: '' @ Number_toString fmt (systolicBP v) @
                '' mmHg (threshold: 140 mmHg)'']
          else [])"

definition durationMinutes :: "Date \<Rightarrow> Date \<Rightarrow> number" where
  "durationMinutes b e = num_div (num_sub (getTime e) (getTime b)) (Fin 60000)"

definition duration_part :: "(rat \<Rightarrow> string) \<Rightarrow> ISession \<Rightarrow> string list" where
  "duration_part fmt s =
     (case endTime s of
        None \<Rightarrow> []
      | Some e \<Rightarrow>
          if num_lt (durationMinutes (startTime s) e) (Fin 150)
          then [''Short session duration: '' @
                Number_toString fmt (Math_round (durationMinutes (startTime s) e)) @
                '' minutes (minimum: 150 minutes)'']
          else if num_gt (durationMinutes (startTime s) e) (Fin 300)
          then [''Long session duration: '' @
                Number_toString fmt (Math_round (durationMinutes (startTime s) e)) @
                '' minutes (maximum: 300 minutes)'']
          else [])"



section \<open>Example inputs\<close>

text \<open>
  A session as the unit tests build it: pre-dialysis weight 72 kg, no post-dialysis
  vitals, no end time. The start time is 2024-01-01T08:00:00Z in milliseconds.
\<close>

definition test_session :: ISession where
  "test_session =
     \<lparr>patientId = ''P001'', scheduledDate = ValidDate 1704096000000,
      startTime = ValidDate 1704096000000, endTime = None,
      preWeight = Fin 72, postWeight = None, vitals = \<lparr>pre = None, post = None\<rparr>,
      machineId = ''M-01'', nurseNotes = None, status = in_progress, anomalies = []\<rparr>"

definition high_bp_vitals :: IVitals where
  "high_bp_vitals =
     \<lparr>systolicBP = Fin 145, diastolicBP = Fin 90, heartRate = None, temperature = None\<rparr>"

definition mockPatient :: Baseline where
  "mockPatient = \<lparr>dryWeight = Fin 70\<rparr>"

text \<open>
  The session of the test of multiple anomalies: 75 kg before dialysis, systolic
  pressure 145 after it, and an end time two hours after the start.
\<close>

definition all_three_session :: ISession where
  "all_three_session =
     test_session\<lparr>preWeight := Fin 75, endTime := Some (ValidDate 1704103200000),
                  vitals := \<lparr>pre = None, post = Some high_bp_vitals\<rparr>\<rparr>"








text \<open>The rendering parameter used in the examples; no example reaches it.\<close>

definition no_fmt :: "rat \<Rightarrow> string" where
  "no_fmt x = []"

section \<open>The evaluator as a function of its arguments\<close>

text \<open>
  No statement of the body throws, and what the three checks append depends on the two
  arguments only: the output is the concatenation of the three parts.
\<close>

lemma toFixed_fixed: "f \<le> 100 \<Longrightarrow> toFixed fmt f x = Inr (fixed fmt f x)"
  by (cases x) (simp_all add: fixed_def)

lemma show_nat_thresholds:
  "show_nat 140 = ''140''" "show_nat 150 = ''150''" "show_nat 300 = ''300''"
  by code_simp+

lemma threshold_strings:
  "Number_toString fmt (Fin 140) = ''140''"
  "Number_toString fmt (Fin 150) = ''150''"
  "Number_toString fmt (Fin 300) = ''300''"
  by (simp_all add: show_nat_thresholds)

lemma check_weight_gain_eq:
  "check_weight_gain fmt f = Inr (f\<lparr>frame.anomalies := frame.anomalies f @ weight_part fmt (session f) (patient f)\<rparr>)"
  by (simp add: check_weight_gain_def weight_part_def weightGainPercent_def ANOMALY_THRESHOLDS_def
      Let_def bind_def push_def toFixed_fixed)

lemma check_systolic_bp_eq:
  "check_systolic_bp fmt f = Inr (f\<lparr>frame.anomalies := frame.anomalies f @ bp_part fmt (session f)\<rparr>)"
  by (simp add: check_systolic_bp_def bp_part_def ANOMALY_THRESHOLDS_def bind_def deref_def push_def
      show_nat_thresholds split: option.splits)

lemma check_duration_eq:
  "check_duration fmt f = Inr (f\<lparr>frame.anomalies := frame.anomalies f @ duration_part fmt (session f)\<rparr>)"
  by (simp add: check_duration_def duration_part_def durationMinutes_def ANOMALY_THRESHOLDS_def
      bind_def deref_def push_def Let_def show_nat_thresholds split: option.splits)

lemma detectAnomalies_body_eq:
  "detectAnomalies_body fmt f =
     Inr (f\<lparr>frame.anomalies := frame.anomalies f @ weight_part fmt (session f) (patient f) @
            bp_part fmt (session f) @ duration_part fmt (session f)\<rparr>)"
  by (simp add: detectAnomalies_body_def check_weight_gain_eq check_systolic_bp_eq check_duration_eq bind_def)

lemma detectAnomalies_eq:
  "detectAnomalies fmt s p =
     Inr \<lparr>hasAnomalies = (weight_part fmt s p @ bp_part fmt s @ duration_part fmt s \<noteq> []),
          AnomalyResult.anomalies = weight_part fmt s p @ bp_part fmt s @ duration_part fmt s\<rparr>"
  by (simp add: detectAnomalies_def detectAnomalies_body_eq bind_def)

section \<open>Labels and lengths of the three parts\<close>

lemma weight_part_labels:
  "a \<in> set (weight_part fmt s p) \<Longrightarrow>
     is_weight_gain_anomaly a \<and> \<not> is_bp_anomaly a \<and> \<not> is_short_anomaly a \<and> \<not> is_long_anomaly a"
  by (auto simp: weight_part_def is_weight_gain_anomaly_def is_bp_anomaly_def is_short_anomaly_def
      is_long_anomaly_def split: if_splits)

lemma bp_part_labels:
  "a \<in> set (bp_part fmt s) \<Longrightarrow>
     is_bp_anomaly a \<and> \<not> is_weight_gain_anomaly a \<and> \<not> is_short_anomaly a \<and> \<not> is_long_anomaly a"
  by (auto simp: bp_part_def is_weight_gain_anomaly_def is_bp_anomaly_def is_short_anomaly_def
      is_long_anomaly_def split: if_splits option.splits)

lemma duration_part_labels:
  "a \<in> set (duration_part fmt s) \<Longrightarrow>
     is_duration_anomaly a \<and> \<not> is_weight_gain_anomaly a \<and> \<not> is_bp_anomaly a \<and>
     \<not> (is_short_anomaly a \<and> is_long_anomaly a)"
  by (auto simp: duration_part_def is_weight_gain_anomaly_def is_bp_anomaly_def is_short_anomaly_def
      is_long_anomaly_def is_duration_anomaly_def split: if_splits option.splits)

lemma part_lengths:
  "length (weight_part fmt s p) \<le> 1" "length (bp_part fmt s) \<le> 1" "length (duration_part fmt s) \<le> 1"
  by (simp_all add: weight_part_def bp_part_def duration_part_def split: option.splits)

lemma weight_anomaly_in_output:
  "(\<exists>a\<in>set (weight_part fmt s p @ bp_part fmt s @ duration_part fmt s). is_weight_gain_anomaly a) =
   (weight_part fmt s p \<noteq> [])"
proof
  assume "\<exists>a\<in>set (weight_part fmt s p @ bp_part fmt s @ duration_part fmt s). is_weight_gain_anomaly a"
  then obtain a where a: "a \<in> set (weight_part fmt s p) \<or> a \<in> set (bp_part fmt s) \<or> a \<in> set (duration_part fmt s)"
    and w: "is_weight_gain_anomaly a" by auto
  from a w bp_part_labels duration_part_labels have "a \<in> set (weight_part fmt s p)" by blast
  then show "weight_part fmt s p \<noteq> []" by auto
next
  assume "weight_part fmt s p \<noteq> []"
  then obtain a where "a \<in> set (weight_part fmt s p)" by (cases "weight_part fmt s p") auto
  with weight_part_labels [of a fmt s p]
  show "\<exists>a\<in>set (weight_part fmt s p @ bp_part fmt s @ duration_part fmt s). is_weight_gain_anomaly a"
    by auto
qed




section \<open>Excess interdialytic weight gain\<close>



section \<open>Session duration\<close>

lemma minutes_less_iff:
  "((of_int d :: 'a :: linordered_field) / 60000 < 150) = (d < 9000000)"
  "(300 < (of_int d :: 'a :: linordered_field) / 60000) = (18000000 < d)"
  by (simp_all add: field_simps)

lemma durationMinutes_valid:
  "durationMinutes (ValidDate b) (ValidDate e) = Fin (of_int (e - b) / 60000)"
  by (simp add: durationMinutes_def)

lemma duration_anomaly_in_output:
  "(\<exists>a\<in>set (weight_part fmt s p @ bp_part fmt s @ duration_part fmt s). is_short_anomaly a) =
   (\<exists>a\<in>set (duration_part fmt s). is_short_anomaly a)"
  "(\<exists>a\<in>set (weight_part fmt s p @ bp_part fmt s @ duration_part fmt s). is_long_anomaly a) =
   (\<exists>a\<in>set (duration_part fmt s). is_long_anomaly a)"
  "(\<forall>a\<in>set (weight_part fmt s p @ bp_part fmt s @ duration_part fmt s). \<not> is_duration_anomaly a) =
   (duration_part fmt s = [])"
    apply (auto dest: weight_part_labels bp_part_labels)[2]
  using weight_part_labels [of _ fmt s p] bp_part_labels [of _ fmt s] duration_part_labels [of _ fmt s]
  apply (cases "duration_part fmt s")
   apply (auto simp: is_duration_anomaly_def)
  done

text \<open>
  C2: when \<open>endTime\<close> is present and \<open>startTime\<close> is earlier than \<open>endTime\<close>, with the
  duration in minutes \<open>(endTime - startTime) / 60000\<close> taken as a real number and compared
  unrounded, the short-duration anomaly appears exactly when the duration is below 150,
  the long-duration anomaly exactly when it is above 300, no duration anomaly exactly
  when it lies in \<open>[150, 300]\<close>, and the two never appear together.
\<close>

theorem duration_anomaly_iff:
  assumes "endTime s = Some (ValidDate e)" and "startTime s = ValidDate b" and "b < e"
  shows "\<exists>r. detectAnomalies fmt s p = Inr r \<and>
     ((\<exists>a\<in>set (AnomalyResult.anomalies r). is_short_anomaly a) \<longleftrightarrow>
        real_of_int (e - b) / 60000 < 150) \<and>
     ((\<exists>a\<in>set (AnomalyResult.anomalies r). is_long_anomaly a) \<longleftrightarrow>
        300 < real_of_int (e - b) / 60000) \<and>
     ((\<forall>a\<in>set (AnomalyResult.anomalies r). \<not> is_duration_anomaly a) \<longleftrightarrow>
        150 \<le> real_of_int (e - b) / 60000 \<and> real_of_int (e - b) / 60000 \<le> 300) \<and>
     \<not> ((\<exists>a\<in>set (AnomalyResult.anomalies r). is_short_anomaly a) \<and>
        (\<exists>a\<in>set (AnomalyResult.anomalies r). is_long_anomaly a))"
proof -
  let ?out = "weight_part fmt s p @ bp_part fmt s @ duration_part fmt s"
  let ?m = "real_of_int (e - b) / 60000"
  have part: "duration_part fmt s =
      (if e - b < 9000000
       then [''Short session duration: '' @
             Number_toString fmt (Math_round (durationMinutes (ValidDate b) (ValidDate e))) @
             '' minutes (minimum: 150 minutes)'']
       else if 18000000 < e - b
       then [''Long session duration: '' @
             Number_toString fmt (Math_round (durationMinutes (ValidDate b) (ValidDate e))) @
             '' minutes (maximum: 300 minutes)'']
       else [])"
    using assms(1,2)
    by (simp add: duration_part_def durationMinutes_valid num_gt_def minutes_less_iff
        del: of_int_diff)
  have short: "(\<exists>a\<in>set (duration_part fmt s). is_short_anomaly a) = (e - b < 9000000)"
    by (simp add: part is_short_anomaly_def)
  have long: "(\<exists>a\<in>set (duration_part fmt s). is_long_anomaly a) = (18000000 < e - b)"
    by (simp add: part is_long_anomaly_def)
  have none: "(duration_part fmt s = []) = (9000000 \<le> e - b \<and> e - b \<le> 18000000)"
    by (auto simp: part)
  have m: "(?m < 150) = (e - b < 9000000)" "(300 < ?m) = (18000000 < e - b)"
    "(150 \<le> ?m) = (9000000 \<le> e - b)" "(?m \<le> 300) = (e - b \<le> 18000000)"
    using minutes_less_iff [where 'a = real, of "e - b"] by linarith+
  have "((\<exists>a\<in>set ?out. is_short_anomaly a) \<longleftrightarrow> ?m < 150) \<and>
     ((\<exists>a\<in>set ?out. is_long_anomaly a) \<longleftrightarrow> 300 < ?m) \<and>
     ((\<forall>a\<in>set ?out. \<not> is_duration_anomaly a) \<longleftrightarrow> 150 \<le> ?m \<and> ?m \<le> 300) \<and>
     \<not> ((\<exists>a\<in>set ?out. is_short_anomaly a) \<and> (\<exists>a\<in>set ?out. is_long_anomaly a))"
    unfolding duration_anomaly_in_output short long none m by linarith
  then show ?thesis
    by (simp add: detectAnomalies_eq)
qed

theorem duration_anomaly_iff_witness:
  "endTime (test_session\<lparr>endTime := Some (ValidDate 1704103200000)\<rparr>) = Some (ValidDate 1704103200000) \<and>
   startTime (test_session\<lparr>endTime := Some (ValidDate 1704103200000)\<rparr>) = ValidDate 1704096000000 \<and>
   (1704096000000 :: int) < 1704103200000 \<and>
   (\<exists>r. detectAnomalies no_fmt (test_session\<lparr>endTime := Some (ValidDate 1704103200000)\<rparr>) mockPatient = Inr r \<and>
        (\<exists>a\<in>set (AnomalyResult.anomalies r). is_short_anomaly a) \<and>
        \<not> (\<exists>a\<in>set (AnomalyResult.anomalies r). is_long_anomaly a))"
proof -
  let ?s = "test_session\<lparr>endTime := Some (ValidDate 1704103200000)\<rparr>"
  have h1: "endTime ?s = Some (ValidDate 1704103200000)" by simp
  have h2: "startTime ?s = ValidDate 1704096000000" by (simp add: test_session_def)
  have h3: "(1704096000000 :: int) < 1704103200000" by simp
  show ?thesis
    using h1 h2 h3 duration_anomaly_iff [OF h1 h2 h3, of no_fmt mockPatient]
    by auto
qed

section \<open>Post-dialysis systolic blood pressure\<close>

lemma bp_anomaly_in_output:
  "(\<exists>a\<in>set (weight_part fmt s p @ bp_part fmt s @ duration_part fmt s). is_bp_anomaly a) =
   (bp_part fmt s \<noteq> [])"
proof
  assume "\<exists>a\<in>set (weight_part fmt s p @ bp_part fmt s @ duration_part fmt s). is_bp_anomaly a"
  then obtain a where a: "a \<in> set (weight_part fmt s p) \<or> a \<in> set (bp_part fmt s) \<or> a \<in> set (duration_part fmt s)"
    and w: "is_bp_anomaly a" by auto
  from a w weight_part_labels duration_part_labels have "a \<in> set (bp_part fmt s)" by blast
  then show "bp_part fmt s \<noteq> []" by auto
next
  assume "bp_part fmt s \<noteq> []"
  then obtain a where "a \<in> set (bp_part fmt s)" by (cases "bp_part fmt s") auto
  with bp_part_labels [of a fmt s]
  show "\<exists>a\<in>set (weight_part fmt s p @ bp_part fmt s @ duration_part fmt s). is_bp_anomaly a"
    by auto
qed

lemma above_threshold_truthy: "num_gt x (Fin 140) \<Longrightarrow> truthy x"
  by (cases x) (auto simp: num_gt_def)

text \<open>
  C3: the high blood pressure anomaly appears exactly when \<open>vitals.post\<close> is present
  and its \<open>systolicBP\<close> is truthy and above 140; without \<open>vitals.post\<close> it never appears;
  when it appears it reads \<open>High post-dialysis systolic BP: {systolicBP} mmHg (threshold:
  140 mmHg)\<close>.
\<close>

theorem high_bp_anomaly_iff:
  "\<exists>r. detectAnomalies fmt s p = Inr r \<and>
     ((\<exists>a\<in>set (AnomalyResult.anomalies r). is_bp_anomaly a) \<longleftrightarrow>
        (\<exists>v. post (vitals s) = Some v \<and> truthy (systolicBP v) \<and> num_gt (systolicBP v) (Fin 140))) \<and>
     (post (vitals s) = None \<longrightarrow> \<not> (\<exists>a\<in>set (AnomalyResult.anomalies r). is_bp_anomaly a)) \<and>
     (\<forall>a\<in>set (AnomalyResult.anomalies r). is_bp_anomaly a \<longrightarrow>
        (\<exists>v. post (vitals s) = Some v \<and>
             a = ''High post-dialysis systolic BP: '' @ Number_toString fmt (systolicBP v) @
                 '' mmHg (threshold: 140 mmHg)''))"
proof -
  let ?out = "weight_part fmt s p @ bp_part fmt s @ duration_part fmt s"
  have nonempty: "(bp_part fmt s \<noteq> []) =
      (\<exists>v. post (vitals s) = Some v \<and> truthy (systolicBP v) \<and> num_gt (systolicBP v) (Fin 140))"
    by (auto simp: bp_part_def split: option.splits)
  have absent: "post (vitals s) = None \<Longrightarrow> bp_part fmt s = []"
    by (simp add: bp_part_def)
  have exact: "\<exists>v. post (vitals s) = Some v \<and>
             a = ''High post-dialysis systolic BP: '' @ Number_toString fmt (systolicBP v) @
                 '' mmHg (threshold: 140 mmHg)''"
    if "a \<in> set ?out" "is_bp_anomaly a" for a
  proof -
    from that weight_part_labels duration_part_labels have a: "a \<in> set (bp_part fmt s)" by auto
    then obtain v where "post (vitals s) = Some v"
      by (cases "post (vitals s)") (auto simp: bp_part_def)
    with a show ?thesis
      by (auto simp: bp_part_def split: if_splits)
  qed
  have "((\<exists>a\<in>set ?out. is_bp_anomaly a) \<longleftrightarrow>
        (\<exists>v. post (vitals s) = Some v \<and> truthy (systolicBP v) \<and> num_gt (systolicBP v) (Fin 140))) \<and>
     (post (vitals s) = None \<longrightarrow> \<not> (\<exists>a\<in>set ?out. is_bp_anomaly a))"
    unfolding bp_anomaly_in_output using nonempty absent by blast
  with exact show ?thesis
    by (simp add: detectAnomalies_eq)
qed

theorem high_bp_anomaly_iff_witness:
  "\<exists>r. detectAnomalies no_fmt (test_session\<lparr>vitals := \<lparr>pre = None, post = Some high_bp_vitals\<rparr>\<rparr>) mockPatient = Inr r \<and>
     ''High post-dialysis systolic BP: 145 mmHg (threshold: 140 mmHg)'' \<in> set (AnomalyResult.anomalies r)"
proof -
  let ?s = "test_session\<lparr>vitals := \<lparr>pre = None, post = Some high_bp_vitals\<rparr>\<rparr>"
  have v: "post (vitals ?s) = Some high_bp_vitals" by simp
  have t: "truthy (systolicBP high_bp_vitals) \<and> num_gt (systolicBP high_bp_vitals) (Fin 140)"
    by (simp add: high_bp_vitals_def num_gt_def)
  have str: "Number_toString no_fmt (systolicBP high_bp_vitals) = ''145''"
    unfolding high_bp_vitals_def by code_simp
  from high_bp_anomaly_iff [of no_fmt ?s mockPatient] v t str show ?thesis
    by fastforce
qed

section \<open>Number and order of the anomalies\<close>

lemma duration_part_all: "\<forall>a\<in>set (duration_part fmt s). is_duration_anomaly a"
  using duration_part_labels by blast

lemma weight_part_all: "\<forall>a\<in>set (weight_part fmt s p). is_weight_gain_anomaly a"
  using weight_part_labels by blast

lemma bp_part_all: "\<forall>a\<in>set (bp_part fmt s). is_bp_anomaly a"
  using bp_part_labels by blast

text \<open>
  C4: the anomaly list has at most three entries; each check appends at most one string;
  the entries come in the order weight gain, blood pressure, duration; when all three
  triggers are active the result is exactly three strings in that order.
\<close>

theorem anomalies_order:
  "\<exists>r. detectAnomalies fmt s p = Inr r \<and>
     length (AnomalyResult.anomalies r) \<le> 3 \<and>
     (\<exists>w b d. AnomalyResult.anomalies r = w @ b @ d \<and>
        check_weight_gain fmt \<lparr>session = s, patient = p, anomalies = []\<rparr> =
          Inr \<lparr>session = s, patient = p, anomalies = w\<rparr> \<and>
        check_systolic_bp fmt \<lparr>session = s, patient = p, anomalies = w\<rparr> =
          Inr \<lparr>session = s, patient = p, anomalies = w @ b\<rparr> \<and>
        check_duration fmt \<lparr>session = s, patient = p, anomalies = w @ b\<rparr> =
          Inr \<lparr>session = s, patient = p, anomalies = w @ b @ d\<rparr> \<and>
        length w \<le> 1 \<and> length b \<le> 1 \<and> length d \<le> 1 \<and>
        (\<forall>a\<in>set w. is_weight_gain_anomaly a) \<and>
        (\<forall>a\<in>set b. is_bp_anomaly a) \<and>
        (\<forall>a\<in>set d. is_duration_anomaly a)) \<and>
     (truthy (preWeight s) \<and> truthy (dryWeight p) \<and>
      num_gt (weightGainPercent s p) (Fin (5 / 100)) \<and>
      (\<exists>v. post (vitals s) = Some v \<and> num_gt (systolicBP v) (Fin 140)) \<and>
      (\<exists>e. endTime s = Some e \<and>
           (num_lt (durationMinutes (startTime s) e) (Fin 150) \<or>
            num_gt (durationMinutes (startTime s) e) (Fin 300))) \<longrightarrow>
      (\<exists>w b d. AnomalyResult.anomalies r = [w, b, d] \<and>
         is_weight_gain_anomaly w \<and> is_bp_anomaly b \<and> is_duration_anomaly d))"
proof -
  let ?w = "weight_part fmt s p" and ?b = "bp_part fmt s" and ?d = "duration_part fmt s"
  have len: "length (?w @ ?b @ ?d) \<le> 3"
    using part_lengths(1) [of fmt s p] part_lengths(2) [of fmt s] part_lengths(3) [of fmt s] by simp
  have split: "\<exists>w b d. ?w @ ?b @ ?d = w @ b @ d \<and>
        check_weight_gain fmt \<lparr>session = s, patient = p, anomalies = []\<rparr> =
          Inr \<lparr>session = s, patient = p, anomalies = w\<rparr> \<and>
        check_systolic_bp fmt \<lparr>session = s, patient = p, anomalies = w\<rparr> =
          Inr \<lparr>session = s, patient = p, anomalies = w @ b\<rparr> \<and>
        check_duration fmt \<lparr>session = s, patient = p, anomalies = w @ b\<rparr> =
          Inr \<lparr>session = s, patient = p, anomalies = w @ b @ d\<rparr> \<and>
        length w \<le> 1 \<and> length b \<le> 1 \<and> length d \<le> 1 \<and>
        (\<forall>a\<in>set w. is_weight_gain_anomaly a) \<and>
        (\<forall>a\<in>set b. is_bp_anomaly a) \<and>
        (\<forall>a\<in>set d. is_duration_anomaly a)"
    using part_lengths(1) [of fmt s p] part_lengths(2) [of fmt s] part_lengths(3) [of fmt s]
    apply -
    apply (rule exI [of _ ?w])
    apply (rule exI [of _ ?b])
    apply (rule exI [of _ ?d])
    apply (simp add: check_weight_gain_eq check_systolic_bp_eq check_duration_eq
        weight_part_all bp_part_all duration_part_all)
    done
  have all3: "\<exists>w b d. ?w @ ?b @ ?d = [w, b, d] \<and>
         is_weight_gain_anomaly w \<and> is_bp_anomaly b \<and> is_duration_anomaly d"
    if t: "truthy (preWeight s) \<and> truthy (dryWeight p) \<and>
      num_gt (weightGainPercent s p) (Fin (5 / 100)) \<and>
      (\<exists>v. post (vitals s) = Some v \<and> num_gt (systolicBP v) (Fin 140)) \<and>
      (\<exists>e. endTime s = Some e \<and>
           (num_lt (durationMinutes (startTime s) e) (Fin 150) \<or>
            num_gt (durationMinutes (startTime s) e) (Fin 300)))"
  proof -
    from t have "\<exists>w. ?w = [w]" by (simp add: weight_part_def)
    then obtain w where w: "?w = [w]" ..
    from t have "\<exists>b. ?b = [b]"
      by (auto simp: bp_part_def above_threshold_truthy)
    then obtain b where b: "?b = [b]" ..
    from t have "\<exists>d. ?d = [d]"
      by (auto simp: duration_part_def)
    then obtain d where d: "?d = [d]" ..
    from w b d weight_part_all [of fmt s p] bp_part_all [of fmt s] duration_part_all [of fmt s]
    show ?thesis by simp
  qed
  from len split all3 show ?thesis
    by (simp add: detectAnomalies_eq)
qed

theorem anomalies_order_witness:
  "\<exists>r. detectAnomalies no_fmt all_three_session mockPatient = Inr r \<and>
     (\<exists>w b d. AnomalyResult.anomalies r = [w, b, d] \<and>
         is_weight_gain_anomaly w \<and> is_bp_anomaly b \<and> is_duration_anomaly d)"
proof -
  have w: "truthy (preWeight all_three_session) \<and> truthy (dryWeight mockPatient) \<and>
      num_gt (weightGainPercent all_three_session mockPatient) (Fin (5 / 100))"
    by (simp add: all_three_session_def mockPatient_def weightGainPercent_def num_gt_def)
  have b: "\<exists>v. post (vitals all_three_session) = Some v \<and> num_gt (systolicBP v) (Fin 140)"
    by (simp add: all_three_session_def high_bp_vitals_def num_gt_def)
  have d: "\<exists>e. endTime all_three_session = Some e \<and>
           (num_lt (durationMinutes (startTime all_three_session) e) (Fin 150) \<or>
            num_gt (durationMinutes (startTime all_three_session) e) (Fin 300))"
    by (simp add: all_three_session_def test_session_def durationMinutes_def)
  from w b d anomalies_order [of no_fmt all_three_session mockPatient] show ?thesis
    by blast
qed

section \<open>Totality\<close>

text \<open>
  C5: the evaluator never throws: for every session and patient, whichever optional
  fields are present and whatever the numbers are, it returns a result; a falsy
  \<open>preWeight\<close> or \<open>dryWeight\<close> skips the weight check, so with a weight of zero the
  division is not reached and no weight gain anomaly is produced.
\<close>

theorem evaluator_total:
  "(\<exists>r. detectAnomalies fmt s p = Inr r) \<and>
   (\<not> truthy (preWeight (session f)) \<or> \<not> truthy (dryWeight (patient f)) \<longrightarrow>
      check_weight_gain fmt f = Inr f) \<and>
   (preWeight s = Fin 0 \<or> dryWeight p = Fin 0 \<longrightarrow>
      (\<exists>r. detectAnomalies fmt s p = Inr r \<and>
           (\<forall>a\<in>set (AnomalyResult.anomalies r). \<not> is_weight_gain_anomaly a)))"
proof (intro conjI impI)
  show "\<exists>r. detectAnomalies fmt s p = Inr r"
    by (simp add: detectAnomalies_eq)
  show "check_weight_gain fmt f = Inr f"
    if "\<not> truthy (preWeight (session f)) \<or> \<not> truthy (dryWeight (patient f))"
    using that by (auto simp: check_weight_gain_def)
  show "\<exists>r. detectAnomalies fmt s p = Inr r \<and>
           (\<forall>a\<in>set (AnomalyResult.anomalies r). \<not> is_weight_gain_anomaly a)"
    if z: "preWeight s = Fin 0 \<or> dryWeight p = Fin 0"
  proof -
    from z have "weight_part fmt s p = []"
      by (auto simp: weight_part_def)
    with weight_anomaly_in_output [of fmt s p] show ?thesis
      by (simp add: detectAnomalies_eq)
  qed
qed

theorem evaluator_total_witness:
  "dryWeight \<lparr>dryWeight = Fin 0\<rparr> = Fin 0 \<and>
   (\<exists>r. detectAnomalies no_fmt (test_session\<lparr>preWeight := Fin 75\<rparr>) \<lparr>dryWeight = Fin 0\<rparr> = Inr r \<and>
        (\<forall>a\<in>set (AnomalyResult.anomalies r). \<not> is_weight_gain_anomaly a))"
  using evaluator_total [of no_fmt "test_session\<lparr>preWeight := Fin 75\<rparr>" "\<lparr>dryWeight = Fin 0\<rparr>"]
  by simp

section \<open>Purity\<close>

text \<open>
  C6: the evaluator is deterministic and pure: the body leaves the two argument objects
  of its frame as they were, so a second call on them returns what the first call
  returned, the same strings in the same order.
\<close>

theorem evaluator_pure:
  "\<exists>f. detectAnomalies_body fmt \<lparr>session = s, patient = p, anomalies = []\<rparr> = Inr f \<and>
       session f = s \<and> patient f = p \<and>
       detectAnomalies fmt (session f) (patient f) = detectAnomalies fmt s p \<and>
       detectAnomalies fmt s p =
         Inr \<lparr>hasAnomalies = (0 < length (frame.anomalies f)),
              AnomalyResult.anomalies = frame.anomalies f\<rparr>"
  by (simp add: detectAnomalies_body_eq detectAnomalies_def bind_def)

section \<open>The flag \<open>hasAnomalies\<close>\<close>

text \<open>
  C7: the flag \<open>hasAnomalies\<close> the evaluator returns equals \<open>anomalies.length > 0\<close>: it is
  true exactly when at least one anomaly was emitted.
\<close>

theorem hasAnomalies_iff_nonempty:
  "\<exists>r. detectAnomalies fmt s p = Inr r \<and>
     hasAnomalies r = (0 < length (AnomalyResult.anomalies r)) \<and>
     hasAnomalies r = (\<exists>a. a \<in> set (AnomalyResult.anomalies r))"
proof -
  let ?out = "weight_part fmt s p @ bp_part fmt s @ duration_part fmt s"
  let ?r = "\<lparr>hasAnomalies = (?out \<noteq> []), AnomalyResult.anomalies = ?out\<rparr>"
  have call: "detectAnomalies fmt s p = Inr ?r"
    by (rule detectAnomalies_eq)
  have len: "hasAnomalies ?r = (0 < length (AnomalyResult.anomalies ?r))"
    by simp
  have "(?out \<noteq> []) = (\<exists>a. a \<in> set ?out)"
    by (cases ?out) auto
  then have ex: "hasAnomalies ?r = (\<exists>a. a \<in> set (AnomalyResult.anomalies ?r))"
    by (simp only: AnomalyResult.select_convs)
  from call len ex show ?thesis by blast
qed

section \<open>Weight at or below the dry weight\<close>

lemma no_gain_no_part:
  "num_le (Fin 0) d \<Longrightarrow> num_le w d \<Longrightarrow> \<not> (truthy w \<and> truthy d \<and> num_gt (num_div (num_sub w d) d) (Fin (5 / 100)))"
  by (cases d; cases w) (auto simp: num_gt_def divide_le_0_iff not_less split: if_splits)

text \<open>
  C8, as amended: for a patient whose dry weight is not negative, a pre-dialysis weight
  at or below the dry weight never produces the excess weight gain anomaly. With a
  negative dry weight the claim as stated fails: \<open>preWeight = -10\<close> and
  \<open>dryWeight = -5\<close> give a gain of \<open>-5\<close> kg and a ratio of \<open>1\<close>, and the anomaly is
  emitted (the counterexample below).
\<close>

theorem no_anomaly_without_gain:
  assumes "num_le (Fin 0) (dryWeight p)" and "num_le (preWeight s) (dryWeight p)"
  shows "\<exists>r. detectAnomalies fmt s p = Inr r \<and>
           (\<forall>a\<in>set (AnomalyResult.anomalies r). \<not> is_weight_gain_anomaly a)"
proof -
  from no_gain_no_part [OF assms] have "weight_part fmt s p = []"
    by (simp add: weight_part_def weightGainPercent_def)
  with weight_anomaly_in_output [of fmt s p] show ?thesis
    by (simp add: detectAnomalies_eq)
qed

theorem no_anomaly_without_gain_witness:
  "num_le (Fin 0) (dryWeight mockPatient) \<and>
   num_le (preWeight (test_session\<lparr>preWeight := Fin 68\<rparr>)) (dryWeight mockPatient) \<and>
   (\<exists>r. detectAnomalies no_fmt (test_session\<lparr>preWeight := Fin 68\<rparr>) mockPatient = Inr r \<and>
        (\<forall>a\<in>set (AnomalyResult.anomalies r). \<not> is_weight_gain_anomaly a))"
proof -
  have h1: "num_le (Fin 0) (dryWeight mockPatient)"
    by (simp add: mockPatient_def)
  have h2: "num_le (preWeight (test_session\<lparr>preWeight := Fin 68\<rparr>)) (dryWeight mockPatient)"
    by (simp add: mockPatient_def)
  from h1 h2 no_anomaly_without_gain [OF h1 h2, of no_fmt] show ?thesis
    by simp
qed

theorem negative_dry_weight_counterexample:
  "num_le (preWeight (test_session\<lparr>preWeight := Fin (- 10)\<rparr>)) (dryWeight \<lparr>dryWeight = Fin (- 5)\<rparr>) \<and>
   detectAnomalies no_fmt (test_session\<lparr>preWeight := Fin (- 10)\<rparr>) \<lparr>dryWeight = Fin (- 5)\<rparr> =
     Inr \<lparr>hasAnomalies = True,
          AnomalyResult.anomalies =
            [''Excess interdialytic weight gain: -5.00 kg (100.0% of dry weight)'']\<rparr> \<and>
   is_weight_gain_anomaly ''Excess interdialytic weight gain: -5.00 kg (100.0% of dry weight)''"
  by code_simp

section \<open>An end time before the start time\<close>

lemma round_negative:
  fixes x :: int
  assumes "x < 0"
  shows "\<lfloor>(of_int x :: rat) / 60000 + 1 / 2\<rfloor> \<le> 0"
    and "(\<lfloor>(of_int x :: rat) / 60000 + 1 / 2\<rfloor> < 0) = (x < - 30000)"
proof -
  have "(of_int x :: rat) / 60000 + 1 / 2 < 1"
    using assms by (simp add: field_simps)
  then have "\<lfloor>(of_int x :: rat) / 60000 + 1 / 2\<rfloor> < 1"
    by (simp add: floor_less_iff)
  then show "\<lfloor>(of_int x :: rat) / 60000 + 1 / 2\<rfloor> \<le> 0" by simp
  have "((of_int x :: rat) / 60000 + 1 / 2 < 0) = (x < - 30000)"
    by (simp add: field_simps) linarith
  then show "(\<lfloor>(of_int x :: rat) / 60000 + 1 / 2\<rfloor> < 0) = (x < - 30000)"
    by (simp add: floor_less_iff)
qed

lemma show_nat_0: "show_nat 0 = ''0''"
  by code_simp

lemma toString_nonpositive:
  assumes "m \<le> 0" and "- (10 ^ 21) < m"
  shows "Number_toString fmt (Fin (of_int m)) = (if m < 0 then ''-'' @ show_nat (nat (- m)) else ''0'')"
proof -
  have "\<bar>of_int m :: rat\<bar> = of_int (- m)" using assms by simp
  moreover have "(of_int (- m) :: rat) < 10 ^ 21"
  proof -
    have "- m < 10 ^ 21" using assms by simp
    then have "(of_int (- m) :: rat) < of_int (10 ^ 21)" by (simp only: of_int_less_iff)
    then show ?thesis by simp
  qed
  ultimately show ?thesis using assms
    by (auto simp: show_nat_0)
qed

text \<open>
  C10, as amended: when \<open>endTime\<close> is earlier than \<open>startTime\<close> the evaluator neither
  rejects nor skips the input: the duration in minutes is negative and the
  short-duration anomaly is emitted, displaying that duration rounded half up. The
  displayed count is negative exactly when \<open>endTime\<close> is more than 30 seconds earlier,
  and is \<open>0\<close> otherwise (the counterexample below: one second earlier displays \<open>0\<close>).
\<close>

theorem end_before_start:
  assumes "endTime s = Some (ValidDate e)" and "startTime s = ValidDate b" and "e < b"
  shows "\<exists>r m. detectAnomalies fmt s p = Inr r \<and>
     num_lt (durationMinutes (ValidDate b) (ValidDate e)) (Fin 0) \<and>
     Math_round (durationMinutes (ValidDate b) (ValidDate e)) = Fin (of_int m) \<and>
     AnomalyResult.anomalies r \<noteq> [] \<and>
     last (AnomalyResult.anomalies r) =
       ''Short session duration: '' @ Number_toString fmt (Fin (of_int m)) @
       '' minutes (minimum: 150 minutes)'' \<and>
     m \<le> 0 \<and>
     (m < 0 \<longleftrightarrow> e - b < - 30000) \<and>
     (- (10 ^ 21) < m \<longrightarrow>
        Number_toString fmt (Fin (of_int m)) =
          (if m < 0 then ''-'' @ show_nat (nat (- m)) else ''0''))"
proof -
  let ?m = "\<lfloor>(of_int (e - b) :: rat) / 60000 + 1 / 2\<rfloor>"
  let ?msg = "''Short session duration: '' @ Number_toString fmt (Fin (of_int ?m)) @
       '' minutes (minimum: 150 minutes)''"
  from assms(3) have neg: "e - b < 0" by simp
  have dur: "durationMinutes (ValidDate b) (ValidDate e) = Fin (of_int (e - b) / 60000)"
    by (rule durationMinutes_valid)
  have lt0: "num_lt (durationMinutes (ValidDate b) (ValidDate e)) (Fin 0)"
    using neg by (simp add: dur divide_less_0_iff del: of_int_diff)
  have lt150: "num_lt (durationMinutes (ValidDate b) (ValidDate e)) (Fin 150)"
    using neg by (simp add: dur minutes_less_iff del: of_int_diff)
  have rnd: "Math_round (durationMinutes (ValidDate b) (ValidDate e)) = Fin (of_int ?m)"
    by (simp add: dur del: of_int_diff)
  have part: "duration_part fmt s = [?msg]"
    using assms(1,2) lt150 by (simp add: duration_part_def rnd del: of_int_diff)
  have out: "weight_part fmt s p @ bp_part fmt s @ duration_part fmt s \<noteq> []"
    "last (weight_part fmt s p @ bp_part fmt s @ duration_part fmt s) = ?msg"
    by (simp_all add: part del: of_int_diff)
  have str: "- (10 ^ 21) < ?m \<longrightarrow>
        Number_toString fmt (Fin (of_int ?m)) =
          (if ?m < 0 then ''-'' @ show_nat (nat (- ?m)) else ''0'')"
    using toString_nonpositive [OF round_negative(1) [OF neg]] by blast
  show ?thesis
    apply (rule exI [of _ "\<lparr>hasAnomalies = (weight_part fmt s p @ bp_part fmt s @ duration_part fmt s \<noteq> []),
          AnomalyResult.anomalies = weight_part fmt s p @ bp_part fmt s @ duration_part fmt s\<rparr>"])
    apply (rule exI [of _ ?m])
    apply (intro conjI)
           apply (rule detectAnomalies_eq)
          apply (rule lt0)
         apply (rule rnd)
        apply (simp only: AnomalyResult.select_convs out)
        apply simp
       apply (simp only: AnomalyResult.select_convs out)
      apply (rule round_negative(1) [OF neg])
     apply (rule round_negative(2) [OF neg])
    apply (rule str)
    done
qed

theorem end_before_start_witness:
  "endTime (test_session\<lparr>endTime := Some (ValidDate 1704088800000)\<rparr>) = Some (ValidDate 1704088800000) \<and>
   startTime (test_session\<lparr>endTime := Some (ValidDate 1704088800000)\<rparr>) = ValidDate 1704096000000 \<and>
   (1704088800000 :: int) < 1704096000000 \<and>
   (\<exists>r. detectAnomalies no_fmt (test_session\<lparr>endTime := Some (ValidDate 1704088800000)\<rparr>) mockPatient = Inr r \<and>
        AnomalyResult.anomalies r \<noteq> [] \<and>
        last (AnomalyResult.anomalies r) = ''Short session duration: -120 minutes (minimum: 150 minutes)'')"
proof -
  let ?s = "test_session\<lparr>endTime := Some (ValidDate 1704088800000)\<rparr>"
  have h1: "endTime ?s = Some (ValidDate 1704088800000)" by simp
  have h2: "startTime ?s = ValidDate 1704096000000" by (simp add: test_session_def)
  have h3: "(1704088800000 :: int) < 1704096000000" by simp
  have m: "Math_round (durationMinutes (ValidDate 1704096000000) (ValidDate 1704088800000)) = Fin (of_int m)
      \<Longrightarrow> m = - 120" for m
  proof -
    have "\<lfloor>- (239 / 2 :: rat)\<rfloor> = - 120"
      by (rule floor_unique) simp_all
    then show "Math_round (durationMinutes (ValidDate 1704096000000) (ValidDate 1704088800000)) = Fin (of_int m)
      \<Longrightarrow> m = - 120"
      by (simp add: durationMinutes_def)
  qed
  have str: "Number_toString no_fmt (Fin (of_int (- 120))) = ''-120''"
    by code_simp
  from end_before_start [OF h1 h2 h3, of no_fmt mockPatient]
  obtain r m where r: "detectAnomalies no_fmt ?s mockPatient = Inr r"
    and rnd: "Math_round (durationMinutes (ValidDate 1704096000000) (ValidDate 1704088800000)) = Fin (of_int m)"
    and ne: "AnomalyResult.anomalies r \<noteq> []"
    and l: "last (AnomalyResult.anomalies r) =
       ''Short session duration: '' @ Number_toString no_fmt (Fin (of_int m)) @
       '' minutes (minimum: 150 minutes)''"
    by blast
  from m [OF rnd] l str have "last (AnomalyResult.anomalies r) = ''Short session duration: -120 minutes (minimum: 150 minutes)''"
    by simp
  with r ne h1 h2 h3 show ?thesis by blast
qed

theorem end_just_before_start_counterexample:
  "detectAnomalies no_fmt (test_session\<lparr>endTime := Some (ValidDate 1704095999000)\<rparr>) mockPatient =
     Inr \<lparr>hasAnomalies = True,
          AnomalyResult.anomalies = [''Short session duration: 0 minutes (minimum: 150 minutes)'']\<rparr>"
  by code_simp

section \<open>Re-evaluation by the update handler\<close>







end
